theory Spec2Isabelle
  imports Main "HOL-Library.AList"
begin

section \<open>JavaScript values used by the chat client\<close>

text \<open>
  The program is a single TypeScript module (\<^verbatim>\<open>src/index.tsx\<close>). Its strings are modelled as
  \<^typ>\<open>string\<close>: one \<^typ>\<open>char\<close> stands for one code unit in the range 0..255; code units
  above that range are outside the model. DOM construction, Markdown rendering and the
  model SDK are external: what they return is a parameter of the functions below, and
  only their effects on the application state, on the persisted snapshot and on the
  notifications are kept.
\<close>

subsection \<open>Strings\<close>

definition isWhiteSpace :: "char \<Rightarrow> bool" where
  \<comment> \<open>the white space and line terminators that \<^verbatim>\<open>String.prototype.trim\<close> strips:
      TAB, LF, VT, FF, CR, SPACE and NBSP\<close>
  "isWhiteSpace c =
     (c = CHR 0x09 \<or> c = CHR 0x0A \<or> c = CHR 0x0B \<or> c = CHR 0x0C \<or> c = CHR 0x0D
      \<or> c = CHR 0x20 \<or> c = CHR 0xA0)"

definition trim :: "string \<Rightarrow> string" where
  "trim s = rev (dropWhile isWhiteSpace (rev (dropWhile isWhiteSpace s)))"

definition startsWith :: "string \<Rightarrow> string \<Rightarrow> bool" where
  \<comment> \<open>\<^verbatim>\<open>s.startsWith(p)\<close>\<close>
  "startsWith p s = (take (length p) s = p)"

fun replaceFirst :: "string \<Rightarrow> string \<Rightarrow> string \<Rightarrow> string" where
  \<comment> \<open>\<^verbatim>\<open>s.replace(pat, rep)\<close> with a string pattern: the first occurrence only. The
      replacements used by the program contain no dollar sign.\<close>
  "replaceFirst pat rep [] = (if pat = [] then rep else [])"
| "replaceFirst pat rep (c # cs) =
     (if startsWith pat (c # cs) then rep @ drop (length pat) (c # cs)
      else c # replaceFirst pat rep cs)"

fun splitNl :: "string \<Rightarrow> string list" where
  \<comment> \<open>\<^verbatim>\<open>s.split('\n')\<close>: never empty, the empty string gives one empty line\<close>
  "splitNl [] = [[]]"
| "splitNl (c # cs) =
     (if c = CHR 0x0A then [] # splitNl cs
      else (case splitNl cs of [] \<Rightarrow> [[c]] | l # ls \<Rightarrow> (c # l) # ls))"

fun joinNl :: "string list \<Rightarrow> string" where
  \<comment> \<open>\<^verbatim>\<open>lines.join('\n')\<close>\<close>
  "joinNl [] = []"
| "joinNl [l] = l"
| "joinNl (l # ls) = l @ CHR 0x0A # joinNl ls"

definition digitChar :: "nat \<Rightarrow> char" where
  "digitChar d = ''0123456789'' ! d"

fun showNat :: "nat \<Rightarrow> string" where
  \<comment> \<open>a non-negative integer inside a template literal: its decimal digits\<close>
  "showNat n = (if n < 10 then [digitChar n] else showNat (n div 10) @ [digitChar (n mod 10)])"

declare showNat.simps [simp del]

subsection \<open>Objects used as string-keyed tables\<close>

text \<open>
  \<^verbatim>\<open>Record<string, V>\<close> is a plain object whose prototype is \<^verbatim>\<open>Object.prototype\<close>. Its own
  properties are an association list with distinct keys in insertion order. A value read
  from it or stored in it is a \<open>V\<close>, or \<^verbatim>\<open>undefined\<close> (which an assignment
  \<^verbatim>\<open>obj[k] = obj2[k]\<close> stores when \<open>obj2\<close> has no such property), or a member of
  \<^verbatim>\<open>Object.prototype\<close>, which a read under an inherited name gives: a value that is not a
  \<open>V\<close>.
\<close>

datatype 'v jsval = Undefined | Value 'v | Foreign

type_synonym 'v jsrecord = "(string \<times> 'v jsval) list"

definition objectPrototypeNames :: "string list" where
  \<comment> \<open>the property names of \<^verbatim>\<open>Object.prototype\<close>\<close>
  "objectPrototypeNames =
     [''constructor'', ''__defineGetter__'', ''__defineSetter__'', ''hasOwnProperty'',
      ''__lookupGetter__'', ''__lookupSetter__'', ''isPrototypeOf'', ''propertyIsEnumerable'',
      ''toString'', ''valueOf'', ''__proto__'', ''toLocaleString'']"

definition hasOwn :: "string \<Rightarrow> 'v jsrecord \<Rightarrow> bool" where
  \<comment> \<open>\<open>k\<close> is an own property of the object: one of \<^verbatim>\<open>Object.keys(obj)\<close>\<close>
  "hasOwn k obj = (map_of obj k \<noteq> None)"

definition hasProp :: "string \<Rightarrow> 'v jsrecord \<Rightarrow> bool" where
  \<comment> \<open>\<^verbatim>\<open>k in obj\<close>: own or inherited\<close>
  "hasProp k obj = (hasOwn k obj \<or> k \<in> set objectPrototypeNames)"

definition getProp :: "'v jsrecord \<Rightarrow> string \<Rightarrow> 'v jsval" where
  \<comment> \<open>\<^verbatim>\<open>obj[k]\<close>\<close>
  "getProp obj k =
     (case map_of obj k of
        Some v \<Rightarrow> v
      | None \<Rightarrow> if k \<in> set objectPrototypeNames then Foreign else Undefined)"

definition replacesPrototype :: "string \<Rightarrow> 'v jsval \<Rightarrow> 'v jsrecord \<Rightarrow> bool" where
  \<comment> \<open>\<^verbatim>\<open>obj[k] = v\<close> goes to the inherited setter of \<^verbatim>\<open>__proto__\<close> and gives the object
      another prototype (the setter ignores \<^verbatim>\<open>undefined\<close>)\<close>
  "replacesPrototype k v obj = (k = ''__proto__'' \<and> \<not> hasOwn k obj \<and> v \<noteq> Undefined)"

definition setProp :: "string \<Rightarrow> 'v jsval \<Rightarrow> 'v jsrecord \<Rightarrow> 'v jsrecord" where
  \<comment> \<open>the own properties after \<^verbatim>\<open>obj[k] = v\<close>: an existing key keeps its place, a new key
      goes last, and the inherited setter of \<^verbatim>\<open>__proto__\<close> makes no own property\<close>
  "setProp k v obj =
     (if k = ''__proto__'' \<and> \<not> hasOwn k obj then obj else AList.update k v obj)"

definition deleteProp :: "string \<Rightarrow> 'v jsrecord \<Rightarrow> 'v jsrecord" where
  \<comment> \<open>\<^verbatim>\<open>delete obj[k]\<close>: own properties only\<close>
  "deleteProp k obj = AList.delete k obj"

definition isDigit :: "char \<Rightarrow> bool" where
  "isDigit c = (c \<in> set ''0123456789'')"

definition digitVal :: "char \<Rightarrow> nat" where
  "digitVal c = of_char c - 48"

definition arrayIndex :: "string \<Rightarrow> nat option" where
  \<comment> \<open>the canonical array indices: decimal numerals below \<open>2^32 - 1\<close> without leading zero\<close>
  "arrayIndex k =
     (if k = [] \<or> \<not> list_all isDigit k \<or> (hd k = CHR ''0'' \<and> length k > 1) then None
      else (let n = foldl (\<lambda>a c. 10 * a + digitVal c) 0 k
            in if n < 4294967295 then Some n else None))"

definition ownKeys :: "'v jsrecord \<Rightarrow> string list" where
  \<comment> \<open>\<^verbatim>\<open>Object.keys(obj)\<close>: array indices in ascending order, then the other keys in
      insertion order\<close>
  "ownKeys obj =
     (let ks = map fst obj
      in sort_key (\<lambda>k. case arrayIndex k of Some n \<Rightarrow> n | None \<Rightarrow> 0)
           (filter (\<lambda>k. arrayIndex k \<noteq> None) ks)
         @ filter (\<lambda>k. arrayIndex k = None) ks)"

subsection \<open>The data model\<close>

datatype Role = User | Model

record GroundingChunkWeb =
  uri :: "string option"
  w_title :: "string option"

record GroundingChunk =
  web :: "GroundingChunkWeb option"

record HistoryEntry =
  h_role :: Role
  h_text :: string
  h_groundingChunks :: "GroundingChunk list option"

record Conversation =
  c_id :: string
  c_title :: string
  c_history :: "HistoryEntry list"
  c_customInstructions :: string
  c_createdAt :: nat

datatype TaskStatus = Todo | InProgress | Done

datatype TaskPriority = Low | Medium | High

record Task =
  t_id :: string
  t_title :: string
  t_notes :: string
  t_status :: TaskStatus
  t_priority :: TaskPriority
  t_dueDate :: "string option"
  t_createdAt :: nat
  t_sourceConversationId :: "string option"
  t_sourceMessageText :: "string option"

record AppSettings =
  nickname :: string
  customInstructions :: string
  agentName :: string
  agentAvatarUrl :: string
  searchArchived :: bool
  isSidebarPinned :: bool

record AppState =
  conversations :: "Conversation jsrecord"
  archivedConversations :: "Conversation jsrecord"
  activeConversationId :: "string option"
  tasks :: "Task list"
  settings :: AppSettings

text \<open>
  The module's mutable variables and the outside world it writes to: \<open>state\<close>, the
  client \<open>ai\<close> (present or not), \<open>editingTaskId\<close>, the snapshots written to local
  storage under \<^verbatim>\<open>STORAGE_KEY\<close> (oldest first; the snapshot stands for its JSON text), and
  the toasts shown by \<^verbatim>\<open>showNotification\<close> (message and type).
\<close>

record world =
  state :: AppState
  ai :: bool
  editingTaskId :: "string option"
  saved :: "AppState list"
  notifications :: "(string \<times> string) list"

definition falsy :: "string option \<Rightarrow> bool" where
  \<comment> \<open>\<^verbatim>\<open>!x\<close> for \<^verbatim>\<open>x: string | null\<close>: null and the empty string are falsy\<close>
  "falsy x = (x = None \<or> x = Some [])"

definition saveState :: "world \<Rightarrow> world" where
  "saveState w = w\<lparr>saved := saved w @ [state w]\<rparr>"

definition showNotification :: "string \<Rightarrow> string \<Rightarrow> world \<Rightarrow> world" where
  "showNotification message type w = w\<lparr>notifications := notifications w @ [(message, type)]\<rparr>"

definition updateSidebarPinnedState :: "bool \<Rightarrow> world \<Rightarrow> world" where
  "updateSidebarPinnedState isPinned w =
     saveState (w\<lparr>state := (state w)\<lparr>settings := (settings (state w))\<lparr>isSidebarPinned := isPinned\<rparr>\<rparr>\<rparr>)"

definition renderApp :: "world \<Rightarrow> world" where
  \<comment> \<open>the rendering itself is DOM work; what is left is the call
      \<^verbatim>\<open>updateSidebarPinnedState(state.settings.isSidebarPinned)\<close> at its end\<close>
  "renderApp w = updateSidebarPinnedState (isSidebarPinned (settings (state w))) w"

subsection \<open>Conversation management\<close>

definition firstKey :: "'v jsrecord \<Rightarrow> string option" where
  \<comment> \<open>\<^verbatim>\<open>remainingIds.length > 0 ? remainingIds[0] : null\<close>\<close>
  "firstKey obj = (case ownKeys obj of [] \<Rightarrow> None | k # _ \<Rightarrow> Some k)"

definition deleteConversation :: "bool \<Rightarrow> string \<Rightarrow> bool \<Rightarrow> world \<Rightarrow> world" where
  \<comment> \<open>\<open>confirmed\<close> is the answer of the \<^verbatim>\<open>confirm\<close> dialog\<close>
  "deleteConversation confirmed cid isArchived w =
     (if \<not> confirmed then w
      else
        let s = state w;
            s1 = (if isArchived
                  then s\<lparr>archivedConversations := deleteProp cid (archivedConversations s)\<rparr>
                  else s\<lparr>conversations := deleteProp cid (conversations s)\<rparr>);
            s2 = (if activeConversationId s1 = Some cid
                  then s1\<lparr>activeConversationId := firstKey (conversations s1)\<rparr>
                  else s1)
        in renderApp (saveState (w\<lparr>state := s2\<rparr>)))"

definition toggleArchiveConversation :: "string \<Rightarrow> world \<Rightarrow> world option" where
  \<comment> \<open>\<open>None\<close>: the assignment gives a table another prototype; what the program does from
      there on is outside the model\<close>
  "toggleArchiveConversation cid w =
     (let s = state w;
          isArchived = hasProp cid (archivedConversations s)
      in if isArchived then
           (let convo = getProp (archivedConversations s) cid;
                s1 = s\<lparr>archivedConversations := deleteProp cid (archivedConversations s)\<rparr>
            in if replacesPrototype cid convo (conversations s1) then None
               else
                 let s2 = s1\<lparr>conversations := setProp cid convo (conversations s1)\<rparr>;
                     s3 = (if falsy (activeConversationId s2)
                           then s2\<lparr>activeConversationId := Some cid\<rparr> else s2)
                 in Some (renderApp (saveState (w\<lparr>state := s3\<rparr>))))
         else
           (let convo = getProp (conversations s) cid;
                s1 = s\<lparr>conversations := deleteProp cid (conversations s)\<rparr>
            in if replacesPrototype cid convo (archivedConversations s1) then None
               else
                 let s2 = s1\<lparr>archivedConversations := setProp cid convo (archivedConversations s1)\<rparr>;
                     s3 = (if activeConversationId s2 = Some cid
                           then s2\<lparr>activeConversationId := firstKey (conversations s2)\<rparr> else s2)
                 in Some (renderApp (saveState (w\<lparr>state := s3\<rparr>)))))"

fun toggleTimes :: "nat \<Rightarrow> string \<Rightarrow> world \<Rightarrow> world option" where
  \<comment> \<open>\<open>n\<close> calls of \<open>toggleArchiveConversation\<close> on the same id, one after the other\<close>
  "toggleTimes 0 cid w = Some w"
| "toggleTimes (Suc n) cid w =
     (case toggleTimes n cid w of
        None \<Rightarrow> None
      | Some w' \<Rightarrow> toggleArchiveConversation cid w')"

definition startNewChat :: "bool \<Rightarrow> nat \<Rightarrow> nat \<Rightarrow> world \<Rightarrow> string \<times> world" where
  \<comment> \<open>\<open>now1\<close> and \<open>now2\<close> are the two readings of \<^verbatim>\<open>Date.now()\<close>\<close>
  "startNewChat shouldRender now1 now2 w =
     (let newId = ''convo_'' @ showNat now1;
          newConversation = \<lparr>c_id = newId, c_title = ''New Chat'', c_history = [],
             c_customInstructions = customInstructions (settings (state w)), c_createdAt = now2\<rparr>;
          s = state w;
          s1 = s\<lparr>conversations := setProp newId (Value newConversation) (conversations s)\<rparr>;
          s2 = s1\<lparr>activeConversationId := Some newId\<rparr>;
          w1 = saveState (w\<lparr>state := s2\<rparr>)
      in (newId, if shouldRender then renderApp w1 else w1))"

subsection \<open>Core chat logic\<close>

text \<open>
  What the model backend does during one call is a parameter. A chat reply is: no session
  could be obtained (\<^verbatim>\<open>chat\<close> is still null after \<^verbatim>\<open>setupConversation\<close>), the call
  \<^verbatim>\<open>sendMessageStream\<close> is rejected, or a stream that delivers chunks and then either ends
  or throws. A chunk carries \<^verbatim>\<open>chunk.text\<close> (a string or \<^verbatim>\<open>undefined\<close>) and the value of
  \<^verbatim>\<open>chunk.candidates?.[0]?.groundingMetadata?.groundingChunks\<close> (\<open>None\<close> when a link of the
  chain is missing). A handler runs without another handler in between: the
  interleaving of asynchronous handlers is not modelled.
\<close>

datatype error = TypeError | SyntaxError

record StreamChunk =
  chunkText :: "string option"
  chunkGrounding :: "GroundingChunk list option"

datatype StreamEnd = Completed | Broken

datatype ChatReply = NoSession | SendFailed | Streamed "StreamChunk list" StreamEnd

datatype ModelReply = Rejected | Replied "string option"

definition errorMessageText :: string where
  "errorMessageText = ''Sorry, I encountered an error. Please try again.''"

definition toText :: "string option \<Rightarrow> string" where
  \<comment> \<open>string concatenation turns \<^verbatim>\<open>undefined\<close> into the text \<^verbatim>\<open>undefined\<close>\<close>
  "toText x = (case x of None \<Rightarrow> ''undefined'' | Some t \<Rightarrow> t)"

fun streamLoop :: "StreamChunk list \<Rightarrow> string \<Rightarrow> GroundingChunk list \<Rightarrow> string \<times> GroundingChunk list" where
  \<comment> \<open>the \<^verbatim>\<open>for await\<close> loop over the stream, with \<^verbatim>\<open>modelResponse\<close> and \<^verbatim>\<open>groundingChunks\<close>;
      an array is truthy also when it is empty\<close>
  "streamLoop [] modelResponse groundingChunks = (modelResponse, groundingChunks)"
| "streamLoop (chunk # rest) modelResponse groundingChunks =
     streamLoop rest (modelResponse @ toText (chunkText chunk))
       (case chunkGrounding chunk of Some gs \<Rightarrow> gs | None \<Rightarrow> groundingChunks)"

definition pushHistory :: "string \<Rightarrow> HistoryEntry \<Rightarrow> world \<Rightarrow> world" where
  \<comment> \<open>\<^verbatim>\<open>activeConvo.history.push(entry)\<close>, \<open>activeConvo\<close> being the object stored under \<open>cid\<close>\<close>
  "pushHistory cid entry w =
     (case getProp (conversations (state w)) cid of
        Value activeConvo \<Rightarrow>
          w\<lparr>state := (state w)\<lparr>conversations :=
            setProp cid (Value (activeConvo\<lparr>c_history := c_history activeConvo @ [entry]\<rparr>))
              (conversations (state w))\<rparr>\<rparr>
      | _ \<Rightarrow> w)"

definition removeQuotes :: "string \<Rightarrow> string" where
  \<comment> \<open>\<^verbatim>\<open>.replace(/"/g, '')\<close>\<close>
  "removeQuotes t = filter (\<lambda>c. c \<noteq> CHR 0x22) t"

definition generateConversationTitle :: "string \<Rightarrow> ModelReply \<Rightarrow> world \<Rightarrow> world" where
  \<comment> \<open>the \<^verbatim>\<open>catch\<close> also takes the TypeError of a missing \<open>ai\<close> and of \<^verbatim>\<open>response.text\<close>
      being undefined. On a stored value that is not a conversation the test of the
      history length throws before the \<^verbatim>\<open>try\<close>; nothing has been changed by then.\<close>
  "generateConversationTitle convoId titleReply w =
     (case getProp (conversations (state w)) convoId of
        Undefined \<Rightarrow> w
      | Foreign \<Rightarrow> w
      | Value convo \<Rightarrow>
          if length (c_history convo) < 2 then w
          else if \<not> ai w then w
          else (case titleReply of
                  Rejected \<Rightarrow> w
                | Replied None \<Rightarrow> w
                | Replied (Some t) \<Rightarrow>
                    let title = removeQuotes (trim t)
                    in saveState (w\<lparr>state := (state w)\<lparr>conversations :=
                         setProp convoId (Value (convo\<lparr>c_title := title\<rparr>))
                           (conversations (state w))\<rparr>\<rparr>)))"

definition handleFormSubmit ::
  "string \<Rightarrow> nat \<Rightarrow> nat \<Rightarrow> ChatReply \<Rightarrow> ModelReply \<Rightarrow> world \<Rightarrow> error + world \<times> (Role \<times> string) list" where
  \<comment> \<open>returns the world and the messages passed to \<^verbatim>\<open>appendMessage\<close> by the handler itself,
      in order. The title workflow, started before the last \<^verbatim>\<open>saveState\<close>, completes
      after it.\<close>
  "handleFormSubmit chatInputValue now1 now2 reply titleReply w =
     (let userMessage = trim chatInputValue in
      if userMessage = [] \<or> \<not> ai w then Inr (w, [])
      else
        let (currentConvoId, w1) =
              (case activeConversationId (state w) of
                 None \<Rightarrow> startNewChat False now1 now2 w
               | Some i \<Rightarrow> if i = [] then startNewChat False now1 now2 w else (i, w))
        in (case getProp (conversations (state w1)) currentConvoId of
              Undefined \<Rightarrow> Inl TypeError
            | Foreign \<Rightarrow> Inl TypeError
            | Value activeConvo \<Rightarrow>
                let isFirstMessage = (length (c_history activeConvo) = 0);
                    userEntry = \<lparr>h_role = User, h_text = userMessage, h_groundingChunks = None\<rparr>;
                    w2 = saveState (pushHistory currentConvoId userEntry w1);
                    failure = (Model, errorMessageText)
                in (case reply of
                      NoSession \<Rightarrow> Inr (w2, [(User, userMessage), failure])
                    | SendFailed \<Rightarrow> Inr (w2, [(User, userMessage), failure])
                    | Streamed chunks Broken \<Rightarrow>
                        Inr (w2, [(User, userMessage), (Model, []), failure])
                    | Streamed chunks Completed \<Rightarrow>
                        let (modelResponse, groundingChunks) = streamLoop chunks [] [];
                            modelEntry = \<lparr>h_role = Model, h_text = modelResponse,
                               h_groundingChunks = Some groundingChunks\<rparr>;
                            w3 = pushHistory currentConvoId modelEntry w2;
                            w4 = saveState w3;
                            w5 = (if isFirstMessage
                                  then generateConversationTitle currentConvoId titleReply w4
                                  else w4)
                        in Inr (w5, [(User, userMessage), (Model, [])]))))"

subsection \<open>Task management\<close>

definition matchSubtask :: "string \<Rightarrow> (bool \<times> string) option" where
  \<comment> \<open>\<^verbatim>\<open>trimmedLine.match(/^- \[( |x)\] (.*)/)\<close>: the marker and the text after it, up to the
      first line terminator (which the dot does not match)\<close>
  "matchSubtask trimmedLine =
     (if startsWith ''- [ ] '' trimmedLine \<or> startsWith ''- [x] '' trimmedLine
      then Some (trimmedLine ! 3 = CHR ''x'',
                 takeWhile (\<lambda>c. c \<noteq> CHR 0x0A \<and> c \<noteq> CHR 0x0D) (drop 6 trimmedLine))
      else None)"

record SubtaskView =
  sv_html :: "(nat \<times> bool \<times> string) list"
  sv_completed :: nat
  sv_total :: nat

fun parseLoop ::
  "string list \<Rightarrow> (nat \<times> bool \<times> string) list \<Rightarrow> nat \<Rightarrow> nat \<Rightarrow> nat
     \<Rightarrow> (nat \<times> bool \<times> string) list \<times> nat \<times> nat" where
  "parseLoop [] subtaskItems completed total' subtaskIndex = (subtaskItems, completed, total')"
| "parseLoop (line # rest) subtaskItems completed total' subtaskIndex =
     (case matchSubtask (trim line) of
        Some (isChecked, txt) \<Rightarrow>
          parseLoop rest (subtaskItems @ [(subtaskIndex, isChecked, txt)])
            (if isChecked then completed + 1 else completed) (total' + 1) (subtaskIndex + 1)
      | None \<Rightarrow> parseLoop rest subtaskItems completed total' subtaskIndex)"

definition parseAndRenderSubtasks :: "Task \<Rightarrow> SubtaskView" where
  \<comment> \<open>the markup is kept as the list of its check boxes: index, checked, label\<close>
  "parseAndRenderSubtasks task =
     (let (subtaskItems, completed, total') = parseLoop (splitNl (t_notes task)) [] 0 0 0
      in if total' = 0 then \<lparr>sv_html = [], sv_completed = 0, sv_total = 0\<rparr>
         else \<lparr>sv_html = subtaskItems, sv_completed = completed, sv_total = total'\<rparr>)"

fun toggleLoop :: "string list \<Rightarrow> int \<Rightarrow> int \<Rightarrow> bool \<Rightarrow> string list" where
  \<comment> \<open>the loop of the check box listener over \<open>lines\<close>, from \<open>currentSubtask\<close>\<close>
  "toggleLoop [] currentSubtask subtaskIndex checked = []"
| "toggleLoop (line # rest) currentSubtask subtaskIndex checked =
     (if startsWith ''- ['' (trim line) then
        (if currentSubtask + 1 = subtaskIndex
         then (if checked then replaceFirst ''[ ]'' ''[x]'' line
               else replaceFirst ''[x]'' ''[ ]'' line) # rest
         else line # toggleLoop rest (currentSubtask + 1) subtaskIndex checked)
      else line # toggleLoop rest currentSubtask subtaskIndex checked)"

fun updateFirst :: "('a \<Rightarrow> bool) \<Rightarrow> ('a \<Rightarrow> 'a) \<Rightarrow> 'a list \<Rightarrow> 'a list" where
  \<comment> \<open>a change to the element that \<^verbatim>\<open>find\<close> or \<^verbatim>\<open>findIndex\<close> returns\<close>
  "updateFirst p f [] = []"
| "updateFirst p f (x # xs) = (if p x then f x # xs else x # updateFirst p f xs)"

definition subtaskCheckboxChange :: "string \<Rightarrow> int \<Rightarrow> bool \<Rightarrow> world \<Rightarrow> world" where
  \<comment> \<open>the \<^verbatim>\<open>change\<close> listener of \<^verbatim>\<open>tasksList\<close> in \<^verbatim>\<open>main\<close>, for a target of class
      \<^verbatim>\<open>subtask-checkbox\<close>: its \<^verbatim>\<open>data-task-id\<close>, its parsed \<^verbatim>\<open>data-subtask-index\<close> and its
      \<^verbatim>\<open>checked\<close> state after the click\<close>
  "subtaskCheckboxChange taskId subtaskIndex checked w =
     (case find (\<lambda>t. t_id t = taskId) (tasks (state w)) of
        None \<Rightarrow> w
      | Some task \<Rightarrow>
          let lines = toggleLoop (splitNl (t_notes task)) (- 1) subtaskIndex checked;
              s = state w
          in saveState (w\<lparr>state := s\<lparr>tasks :=
               updateFirst (\<lambda>t. t_id t = taskId) (\<lambda>t. t\<lparr>t_notes := joinNl lines\<rparr>) (tasks s)\<rparr>\<rparr>))"

record TaskForm =
  taskIdInput :: string
  taskTitleInput :: string
  taskNotesInput :: string
  taskStatusSelect :: TaskStatus
  taskPrioritySelect :: TaskPriority
  taskDueDateInput :: string
  sourceConvoId :: string
  sourceMessage :: string

definition orNull :: "string \<Rightarrow> string option" where
  \<comment> \<open>\<^verbatim>\<open>x || null\<close>\<close>
  "orNull x = (if x = [] then None else Some x)"

definition closeTaskForm :: "world \<Rightarrow> world" where
  "closeTaskForm w = w\<lparr>editingTaskId := None\<rparr>"

definition handleTaskFormSubmit :: "TaskForm \<Rightarrow> nat \<Rightarrow> nat \<Rightarrow> world \<Rightarrow> world" where
  "handleTaskFormSubmit form now1 now2 w =
     (let title = trim (taskTitleInput form);
          notes = trim (taskNotesInput form);
          dueDate = orNull (taskDueDateInput form)
      in if title = [] then showNotification ''Task title cannot be empty'' ''error'' w
         else
           let w1 =
             (if \<not> falsy (editingTaskId w) then
                (if find (\<lambda>t. Some (t_id t) = editingTaskId w) (tasks (state w)) \<noteq> None
                 then showNotification ''Task updated'' ''success''
                        (w\<lparr>state := (state w)\<lparr>tasks :=
                           updateFirst (\<lambda>t. Some (t_id t) = editingTaskId w)
                             (\<lambda>existingTask. existingTask\<lparr>t_id := taskIdInput form, t_title := title,
                                t_notes := notes, t_status := taskStatusSelect form,
                                t_priority := taskPrioritySelect form, t_dueDate := dueDate\<rparr>)
                             (tasks (state w))\<rparr>\<rparr>)
                 else w)
              else
                let newTask = \<lparr>t_id = ''task_'' @ showNat now1, t_title = title, t_notes = notes,
                      t_status = taskStatusSelect form, t_priority = taskPrioritySelect form,
                      t_dueDate = dueDate, t_createdAt = now2,
                      t_sourceConversationId = orNull (sourceConvoId form),
                      t_sourceMessageText = orNull (sourceMessage form)\<rparr>
                in showNotification ''Task created'' ''success''
                     (w\<lparr>state := (state w)\<lparr>tasks := tasks (state w) @ [newTask]\<rparr>\<rparr>))
           in closeTaskForm (saveState w1))"

subsection \<open>Loading the persisted snapshot\<close>

text \<open>
  \<^verbatim>\<open>loadState\<close> works on whatever \<^verbatim>\<open>JSON.parse\<close> returns, so it is modelled on JSON values,
  where an object can have any fields. An object is a list of fields in which a later
  entry for a name overrides an earlier one. Numbers are only passed along; they are kept
  as integers.
\<close>

datatype json =
  JNull | JBool bool | JNum int | JStr string | JArr "json list" | JObj "(string \<times> json) list"

datatype savedItem =
  Absent \<comment> \<open>\<^verbatim>\<open>getItem\<close> gives null or the empty string\<close>
| Unparsable \<comment> \<open>a text that \<^verbatim>\<open>JSON.parse\<close> rejects\<close>
| Parsed json

definition objGet :: "(string \<times> json) list \<Rightarrow> string \<Rightarrow> json option" where
  \<comment> \<open>an own property of an object\<close>
  "objGet props k = map_of (rev props) k"

definition spreadProps :: "json option \<Rightarrow> (string \<times> json) list" where
  \<comment> \<open>the own enumerable properties that \<^verbatim>\<open>...v\<close> copies; \<open>None\<close> is \<^verbatim>\<open>undefined\<close>\<close>
  "spreadProps v =
     (case v of
        Some (JObj props) \<Rightarrow> props
      | Some (JArr xs) \<Rightarrow> zip (map showNat [0..<length xs]) xs
      | Some (JStr t) \<Rightarrow> zip (map showNat [0..<length t]) (map (\<lambda>c. JStr [c]) t)
      | _ \<Rightarrow> [])"

definition objectSpread :: "(string \<times> json) list \<Rightarrow> (string \<times> json) list \<Rightarrow> (string \<times> json) list" where
  \<comment> \<open>\<^verbatim>\<open>{ ...a, ...b }\<close>\<close>
  "objectSpread a b = fold (\<lambda>(k, v). AList.update k v) (a @ b) []"

definition getField :: "json \<Rightarrow> string \<Rightarrow> error + json option" where
  \<comment> \<open>\<^verbatim>\<open>v.settings\<close> and \<^verbatim>\<open>v.tasks\<close>, names that no prototype defines: a TypeError on null,
      \<^verbatim>\<open>undefined\<close> on a value that is not an object\<close>
  "getField v k =
     (case v of JNull \<Rightarrow> Inl TypeError | JObj props \<Rightarrow> Inr (objGet props k) | _ \<Rightarrow> Inr None)"

definition truthy :: "json option \<Rightarrow> bool" where
  "truthy v =
     (case v of
        None \<Rightarrow> False | Some JNull \<Rightarrow> False | Some (JBool b) \<Rightarrow> b
      | Some (JNum n) \<Rightarrow> n \<noteq> 0 | Some (JStr t) \<Rightarrow> t \<noteq> [] | Some _ \<Rightarrow> True)"

definition DEFAULT_AGENT_NAME :: string where
  "DEFAULT_AGENT_NAME = ''Gemini''"

definition initialSettings :: "(string \<times> json) list" where
  \<comment> \<open>the \<open>settings\<close> of \<^verbatim>\<open>getInitialState()\<close>\<close>
  "initialSettings =
     [(''nickname'', JStr ''You''),
      (''customInstructions'', JStr []),
      (''agentName'', JStr DEFAULT_AGENT_NAME),
      (''agentAvatarUrl'', JStr []),
      (''searchArchived'', JBool False),
      (''isSidebarPinned'', JBool False)]"

definition getInitialState :: "(string \<times> json) list" where
  "getInitialState =
     [(''conversations'', JObj []),
      (''archivedConversations'', JObj []),
      (''activeConversationId'', JNull),
      (''tasks'', JArr []),
      (''settings'', JObj initialSettings)]"

definition loadState :: "savedItem \<Rightarrow> error + (string \<times> json) list" where
  \<comment> \<open>the value assigned to \<open>state\<close>, or the exception that leaves \<^verbatim>\<open>loadState\<close>\<close>
  "loadState savedState =
     (case savedState of
        Absent \<Rightarrow> Inr getInitialState
      | Unparsable \<Rightarrow> Inl SyntaxError
      | Parsed parsedState \<Rightarrow>
          let state0 = objectSpread getInitialState (spreadProps (Some parsedState))
          in (case getField parsedState ''settings'' of
                Inl e \<Rightarrow> Inl e
              | Inr parsedSettings \<Rightarrow>
                  let state1 = AList.update ''settings''
                        (JObj (objectSpread initialSettings (spreadProps parsedSettings))) state0
                  in (case getField parsedState ''tasks'' of
                        Inl e \<Rightarrow> Inl e
                      | Inr parsedTasks \<Rightarrow>
                          Inr (AList.update ''tasks''
                                 (case parsedTasks of
                                    Some t \<Rightarrow> if truthy parsedTasks then t else JArr []
                                  | None \<Rightarrow> JArr [])
                                 state1))))"

section \<open>Notions used to state the properties\<close>

definition inActive :: "string \<Rightarrow> world \<Rightarrow> bool" where
  \<comment> \<open>the id is a key of the active partition\<close>
  "inActive cid w = hasOwn cid (conversations (state w))"

definition inArchived :: "string \<Rightarrow> world \<Rightarrow> bool" where
  \<comment> \<open>the id is a key of the archived partition\<close>
  "inArchived cid w = hasOwn cid (archivedConversations (state w))"

definition storedConversation :: "string \<Rightarrow> world \<Rightarrow> Conversation jsval" where
  \<comment> \<open>the conversation kept under an id, read from the archived partition when the id is
      there and from the active partition otherwise\<close>
  "storedConversation cid w =
     (if inArchived cid w then getProp (archivedConversations (state w)) cid
      else getProp (conversations (state w)) cid)"

definition activeHistory :: "world \<Rightarrow> HistoryEntry list option" where
  \<comment> \<open>the history of the conversation that \<open>activeConversationId\<close> names in the active
      partition\<close>
  "activeHistory w =
     (case activeConversationId (state w) of
        None \<Rightarrow> None
      | Some i \<Rightarrow>
          (case getProp (conversations (state w)) i of
             Value c \<Rightarrow> Some (c_history c)
           | _ \<Rightarrow> None))"

definition titleOf :: "string \<Rightarrow> world \<Rightarrow> string option" where
  \<comment> \<open>the title of the conversation stored under an id in the active partition\<close>
  "titleOf cid w =
     (case getProp (conversations (state w)) cid of
        Value c \<Rightarrow> Some (c_title c)
      | _ \<Rightarrow> None)"

definition sendHistoryBefore :: "world \<Rightarrow> HistoryEntry list option" where
  \<comment> \<open>the history that a send starts from: empty when a new chat is opened for it\<close>
  "sendHistoryBefore w =
     (if falsy (activeConversationId (state w)) then Some [] else activeHistory w)"

definition historyAfter :: "error + world \<times> (Role \<times> string) list \<Rightarrow> HistoryEntry list option" where
  "historyAfter r = (case r of Inl e \<Rightarrow> None | Inr (w, shown) \<Rightarrow> activeHistory w)"

definition errorMarkers :: "HistoryEntry list \<Rightarrow> HistoryEntry list" where
  "errorMarkers h = filter (\<lambda>e. h_role e = Model \<and> h_text e = errorMessageText) h"

definition streamedText :: "StreamChunk list \<Rightarrow> string" where
  "streamedText chunks = concat (map (\<lambda>c. toText (chunkText c)) chunks)"

fun deliveredGrounding :: "StreamChunk list \<Rightarrow> GroundingChunk list list" where
  \<comment> \<open>the grounding chunk lists that arrive during a stream, in order\<close>
  "deliveredGrounding [] = []"
| "deliveredGrounding (c # cs) =
     (case chunkGrounding c of
        None \<Rightarrow> deliveredGrounding cs
      | Some gs \<Rightarrow> gs # deliveredGrounding cs)"

definition lastDeliveredGrounding :: "StreamChunk list \<Rightarrow> GroundingChunk list" where
  \<comment> \<open>the list of the last arrival, empty or not; the empty list when nothing arrives\<close>
  "lastDeliveredGrounding chunks =
     (if deliveredGrounding chunks = [] then [] else last (deliveredGrounding chunks))"

definition lastNonEmptyGrounding :: "StreamChunk list \<Rightarrow> GroundingChunk list" where
  \<comment> \<open>the specification's tie-break: the list of the last arrival that is not empty\<close>
  "lastNonEmptyGrounding chunks =
     (if filter (\<lambda>gs. gs \<noteq> []) (deliveredGrounding chunks) = [] then []
      else last (filter (\<lambda>gs. gs \<noteq> []) (deliveredGrounding chunks)))"

definition titleCallFails :: "ModelReply \<Rightarrow> world \<Rightarrow> bool" where
  \<comment> \<open>the call for a title throws: no client, a rejected request, or a reply without text\<close>
  "titleCallFails titleReply w = (\<not> ai w \<or> titleReply = Rejected \<or> titleReply = Replied None)"

definition bracketLineCount :: "string \<Rightarrow> nat" where
  \<comment> \<open>the number of lines of the notes whose trimmed form starts with \<^verbatim>\<open>- [\<close>\<close>
  "bracketLineCount notes =
     length (filter (\<lambda>line. startsWith ''- ['' (trim line)) (splitNl notes))"

definition bracketLine :: "string \<Rightarrow> bool" where
  \<comment> \<open>a line that the check box listener counts\<close>
  "bracketLine line = startsWith ''- ['' (trim line)"

definition checklistLine :: "string \<Rightarrow> bool" where
  \<comment> \<open>a line that the decoder recognises\<close>
  "checklistLine line = (matchSubtask (trim line) \<noteq> None)"

definition persistedFields :: "savedItem \<Rightarrow> (string \<times> json) list" where
  \<comment> \<open>the fields of the persisted snapshot\<close>
  "persistedFields savedState =
     (case savedState of Parsed v \<Rightarrow> spreadProps (Some v) | _ \<Rightarrow> [])"

definition persistedSettings :: "savedItem \<Rightarrow> (string \<times> json) list" where
  \<comment> \<open>the fields of the persisted snapshot's \<open>settings\<close>\<close>
  "persistedSettings savedState =
     (case savedState of
        Parsed (JObj props) \<Rightarrow> spreadProps (objGet props ''settings'')
      | _ \<Rightarrow> [])"

subsection \<open>A sample world\<close>

definition sampleSettings :: AppSettings where
  "sampleSettings =
     \<lparr>nickname = ''You'', customInstructions = [], agentName = DEFAULT_AGENT_NAME,
      agentAvatarUrl = [], searchArchived = False, isSidebarPinned = False\<rparr>"

definition sampleConversation :: "string \<Rightarrow> HistoryEntry list \<Rightarrow> Conversation" where
  "sampleConversation cid h =
     \<lparr>c_id = cid, c_title = ''New Chat'', c_history = h, c_customInstructions = [],
      c_createdAt = 1\<rparr>"

definition sampleTask :: "string \<Rightarrow> string \<Rightarrow> Task" where
  "sampleTask tid notes =
     \<lparr>t_id = tid, t_title = ''Shopping'', t_notes = notes, t_status = Todo, t_priority = Low,
      t_dueDate = None, t_createdAt = 1, t_sourceConversationId = None,
      t_sourceMessageText = None\<rparr>"

definition sampleState :: AppState where
  "sampleState =
     \<lparr>conversations = [(''c1'', Value (sampleConversation ''c1'' [])),
                       (''c2'', Value (sampleConversation ''c2'' []))],
      archivedConversations = [(''c3'', Value (sampleConversation ''c3'' []))],
      activeConversationId = Some ''c1'',
      tasks = [sampleTask ''t1'' (''- [ ]'' @ [CHR 0x0A] @ ''- [ ] b'')],
      settings = sampleSettings\<rparr>"

definition sampleWorld :: world where
  "sampleWorld =
     \<lparr>state = sampleState, ai = True, editingTaskId = None, saved = [], notifications = []\<rparr>"

definition sampleForm :: TaskForm where
  "sampleForm =
     \<lparr>taskIdInput = [], taskTitleInput = ''  '', taskNotesInput = ''milk'',
      taskStatusSelect = Todo, taskPrioritySelect = Medium, taskDueDateInput = [],
      sourceConvoId = [], sourceMessage = []\<rparr>"

definition sampleSource :: GroundingChunk where
  "sampleSource = \<lparr>web = Some \<lparr>uri = Some ''https://example.org'', w_title = Some ''Example''\<rparr>\<rparr>"

definition idleWorld :: world where
  \<comment> \<open>the sample world with no active conversation\<close>
  "idleWorld = sampleWorld\<lparr>state := sampleState\<lparr>activeConversationId := None\<rparr>\<rparr>"

definition inheritedNameWorld :: world where
  \<comment> \<open>a world whose only conversation is stored under a name of \<^verbatim>\<open>Object.prototype\<close>\<close>
  "inheritedNameWorld =
     sampleWorld\<lparr>state := sampleState\<lparr>conversations :=
        [(''toString'', Value (sampleConversation ''toString'' []))],
        archivedConversations := []\<rparr>\<rparr>"

definition sendTarget :: "nat \<Rightarrow> world \<Rightarrow> string" where
  \<comment> \<open>the id of the conversation that a send writes to\<close>
  "sendTarget now1 w =
     (case activeConversationId (state w) of
        None \<Rightarrow> ''convo_'' @ showNat now1
      | Some i \<Rightarrow> if i = [] then ''convo_'' @ showNat now1 else i)"

definition sampleChunks :: "StreamChunk list" where
  \<comment> \<open>a stream whose second chunk carries an empty list of sources\<close>
  "sampleChunks =
     [\<lparr>chunkText = Some ''He'', chunkGrounding = Some [sampleSource]\<rparr>,
      \<lparr>chunkText = Some ''llo!'', chunkGrounding = Some []\<rparr>]"

definition sampleExchange :: "HistoryEntry list" where
  "sampleExchange =
     [\<lparr>h_role = User, h_text = ''hi'', h_groundingChunks = None\<rparr>,
      \<lparr>h_role = Model, h_text = ''Hello!'', h_groundingChunks = Some []\<rparr>]"

definition chattedWorld :: world where
  \<comment> \<open>a world whose active conversation has had its first exchange\<close>
  "chattedWorld =
     sampleWorld\<lparr>state := sampleState\<lparr>conversations :=
        [(''c1'', Value (sampleConversation ''c1'' sampleExchange))]\<rparr>\<rparr>"

definition sampleSnapshot :: json where
  \<comment> \<open>a snapshot with a partial \<open>settings\<close> and two fields the program does not know\<close>
  "sampleSnapshot =
     JObj [(''theme'', JStr ''dark''),
           (''settings'', JObj [(''nickname'', JStr ''Jo''), (''fontSize'', JNum 12)])]"

section \<open>Properties of the tables\<close>

lemma hasOwn_update: "hasOwn k (AList.update k' v obj) = (k = k' \<or> hasOwn k obj)"
  by (simp add: hasOwn_def update_conv')

lemma hasOwn_deleteProp: "hasOwn k (deleteProp k' obj) = (k \<noteq> k' \<and> hasOwn k obj)"
  by (simp add: hasOwn_def deleteProp_def delete_conv')

lemma getProp_update: "getProp (AList.update k v obj) k' = (if k' = k then v else getProp obj k')"
  by (simp add: getProp_def update_conv')

lemma setProp_plain: "k \<noteq> ''__proto__'' \<Longrightarrow> setProp k v obj = AList.update k v obj"
  by (simp add: setProp_def)

lemma setProp_own: "hasOwn k obj \<Longrightarrow> setProp k v obj = AList.update k v obj"
  by (simp add: setProp_def)

lemma setProp_generated [simp]:
  "setProp (CHR ''c'' # t) v obj = AList.update (CHR ''c'' # t) v obj"
  by (simp add: setProp_def)

lemma getProp_Value_own: "getProp obj k = Value c \<Longrightarrow> hasOwn k obj"
  by (auto simp: getProp_def hasOwn_def split: option.splits if_splits)

lemma getProp_setProp_Value:
  "getProp obj k = Value c \<Longrightarrow>
   getProp (setProp k v obj) k' = (if k' = k then v else getProp obj k')"
  by (simp add: setProp_own getProp_Value_own getProp_update)

lemma plain_name: "k \<notin> set objectPrototypeNames \<Longrightarrow> k \<noteq> ''__proto__''"
  by (auto simp: objectPrototypeNames_def)

lemma hasProp_plain: "k \<notin> set objectPrototypeNames \<Longrightarrow> hasProp k obj = hasOwn k obj"
  by (simp add: hasProp_def)

text \<open>
  The ids of conversations are made in one place, by \<open>startNewChat\<close>, as \<^verbatim>\<open>convo_\<close> followed
  by the time: such an id is not empty and is not a property name of \<^verbatim>\<open>Object.prototype\<close>.
\<close>

lemma generated_id_plain:
  "''convo_'' @ t \<notin> set objectPrototypeNames" "''convo_'' @ t \<noteq> []"
  by (simp_all add: objectPrototypeNames_def)

lemma startNewChat_id:
  "fst (startNewChat shouldRender now1 now2 w) \<notin> set objectPrototypeNames"
  "fst (startNewChat shouldRender now1 now2 w) \<noteq> []"
  by (simp_all add: startNewChat_def Let_def objectPrototypeNames_def)

lemma hasOwn_iff: "hasOwn k obj = (k \<in> fst ` set obj)"
  by (simp add: hasOwn_def map_of_eq_None_iff)

lemma set_ownKeys: "set (ownKeys obj) = fst ` set obj"
  by (auto simp: ownKeys_def Let_def)

lemma firstKey_None: "(firstKey obj = None) = (obj = [])"
proof -
  have "(ownKeys obj = []) = (obj = [])"
    using set_ownKeys [of obj] by (metis image_is_empty set_empty)
  thus ?thesis by (auto simp: firstKey_def split: list.splits)
qed

lemma firstKey_Some: "firstKey obj = Some k \<Longrightarrow> hasOwn k obj"
proof -
  assume "firstKey obj = Some k"
  hence "k \<in> set (ownKeys obj)" by (auto simp: firstKey_def split: list.splits)
  thus ?thesis by (simp add: set_ownKeys hasOwn_iff)
qed

lemma state_saveState [simp]: "state (saveState w) = state w"
  by (simp add: saveState_def)

lemma state_renderApp [simp]: "state (renderApp w) = state w"
  by (simp add: renderApp_def updateSidebarPinnedState_def)

section \<open>Archiving, unarchiving and deleting conversations\<close>

lemma toggle_step:
  assumes "cid \<notin> set objectPrototypeNames"
  shows "\<exists>w'. toggleArchiveConversation cid w = Some w'
           \<and> inArchived cid w' = (\<not> inArchived cid w)
           \<and> inActive cid w' = inArchived cid w
           \<and> storedConversation cid w' = storedConversation cid w"
proof -
  have p: "cid \<noteq> ''__proto__''" using assms by (rule plain_name)
  show ?thesis
    by (simp add: toggleArchiveConversation_def Let_def hasProp_plain [OF assms]
        replacesPrototype_def p setProp_plain [OF p] inArchived_def inActive_def
        storedConversation_def hasOwn_update hasOwn_deleteProp getProp_update)
qed

lemma toggleTimes_parity:
  assumes "cid \<notin> set objectPrototypeNames"
  shows "\<exists>w'. toggleTimes n cid w = Some w'
           \<and> inArchived cid w' = (if even n then inArchived cid w else \<not> inArchived cid w)
           \<and> (0 < n \<longrightarrow> inActive cid w' = (\<not> inArchived cid w'))
           \<and> storedConversation cid w' = storedConversation cid w"
proof (induction n)
  case 0
  show ?case by simp
next
  case (Suc n)
  then obtain w1 where w1: "toggleTimes n cid w = Some w1"
    "inArchived cid w1 = (if even n then inArchived cid w else \<not> inArchived cid w)"
    "storedConversation cid w1 = storedConversation cid w"
    by blast
  from toggle_step [OF assms, of w1] obtain w2
    where w2: "toggleArchiveConversation cid w1 = Some w2"
      "inArchived cid w2 = (\<not> inArchived cid w1)"
      "inActive cid w2 = inArchived cid w1"
      "storedConversation cid w2 = storedConversation cid w1"
    by blast
  have "toggleTimes (Suc n) cid w = Some w2" by (simp add: w1(1) w2(1))
  with w1(2,3) w2(2,3,4) show ?case by simp
qed

lemma sample_partitions:
  "inActive ''c1'' sampleWorld" "\<not> inArchived ''c1'' sampleWorld"
  "''c1'' \<notin> set objectPrototypeNames"
  by (simp_all add: inActive_def inArchived_def sampleWorld_def sampleState_def hasOwn_def
      objectPrototypeNames_def)

text \<open>
  An id that is a property name of \<^verbatim>\<open>Object.prototype\<close> passes the test \<^verbatim>\<open>id in\<close> of
  \<open>toggleArchiveConversation\<close> without being archived: the call takes the branch that
  unarchives, and stores the inherited member over the conversation, which stays in the
  active partition.
\<close>

lemma toggle_inherited_name:
  "map_option (\<lambda>w'. conversations (state w')) (toggleArchiveConversation ''toString'' inheritedNameWorld)
     = Some [(''toString'', Foreign)]
   \<and> map_option (\<lambda>w'. archivedConversations (state w'))
        (toggleArchiveConversation ''toString'' inheritedNameWorld)
     = Some []"
  by (simp add: toggleArchiveConversation_def Let_def inheritedNameWorld_def sampleWorld_def
      sampleState_def hasProp_def hasOwn_def objectPrototypeNames_def getProp_def
      replacesPrototype_def setProp_def deleteProp_def)

text \<open>
  Claim C2. Let a conversation id, not a property name of \<^verbatim>\<open>Object.prototype\<close> (no id that
  the program makes is one), be in exactly one of the two partitions. \<open>n\<close> calls of
  \<open>toggleArchiveConversation\<close> on it all return; after them the id is in the partition it
  started in when \<open>n\<close> is even and in the other one when \<open>n\<close> is odd, and the conversation
  kept under it is the one that was there at the start; after none of the first \<open>n\<close>
  calls (nor before them) is the id in both partitions.
\<close>

theorem archiveToggle_parity:
  assumes "cid \<notin> set objectPrototypeNames"
      and "inActive cid w \<noteq> inArchived cid w"
  shows "\<exists>w'. toggleTimes n cid w = Some w'
           \<and> inArchived cid w' = (if even n then inArchived cid w else \<not> inArchived cid w)
           \<and> inActive cid w' = (if even n then inActive cid w else \<not> inActive cid w)
           \<and> storedConversation cid w' = storedConversation cid w
           \<and> (\<forall>k\<le>n. \<exists>wk. toggleTimes k cid w = Some wk
                          \<and> \<not> (inActive cid wk \<and> inArchived cid wk))"
proof -
  have ex: "\<exists>wk. toggleTimes k cid w = Some wk
              \<and> inArchived cid wk = (if even k then inArchived cid w else \<not> inArchived cid w)
              \<and> inActive cid wk = (\<not> inArchived cid wk)
              \<and> storedConversation cid wk = storedConversation cid w" for k
  proof (cases "k = 0")
    case True
    with assms(2) show ?thesis by auto
  next
    case False
    with toggleTimes_parity [OF assms(1), of k w] show ?thesis by auto
  qed
  from ex [of n] obtain w' where w': "toggleTimes n cid w = Some w'"
    "inArchived cid w' = (if even n then inArchived cid w else \<not> inArchived cid w)"
    "inActive cid w' = (\<not> inArchived cid w')"
    "storedConversation cid w' = storedConversation cid w"
    by blast
  have "inActive cid w' = (if even n then inActive cid w else \<not> inActive cid w)"
    using w'(2,3) assms(2) by auto
  moreover have "\<forall>k\<le>n. \<exists>wk. toggleTimes k cid w = Some wk
                          \<and> \<not> (inActive cid wk \<and> inArchived cid wk)"
    using ex by blast
  ultimately show ?thesis using w'(1,2,4) by blast
qed

theorem archiveToggle_parity_witness:
  "''c1'' \<notin> set objectPrototypeNames
   \<and> inActive ''c1'' sampleWorld \<noteq> inArchived ''c1'' sampleWorld
   \<and> map_option (inArchived ''c1'') (toggleTimes 3 ''c1'' sampleWorld) = Some True
   \<and> map_option (inActive ''c1'') (toggleTimes 3 ''c1'' sampleWorld) = Some False
   \<and> map_option (inActive ''c1'') (toggleTimes 2 ''c1'' sampleWorld) = Some True
   \<and> map_option (inArchived ''c1'') (toggleTimes 2 ''c1'' sampleWorld) = Some False
   \<and> map_option (storedConversation ''c1'') (toggleTimes 3 ''c1'' sampleWorld)
        = Some (Value (sampleConversation ''c1'' []))"
proof -
  have h: "inActive ''c1'' sampleWorld \<noteq> inArchived ''c1'' sampleWorld"
    by (simp add: sample_partitions)
  have s: "storedConversation ''c1'' sampleWorld = Value (sampleConversation ''c1'' [])"
    by (simp add: storedConversation_def sample_partitions)
       (simp add: sampleWorld_def sampleState_def getProp_def)
  show ?thesis
    using h archiveToggle_parity [OF sample_partitions(3) h, of 3]
      archiveToggle_parity [OF sample_partitions(3) h, of 2]
    by (auto simp: sample_partitions s)
qed

text \<open>
  Claim C6. When \<open>activeConversationId\<close> names a conversation of the active partition and
  that conversation is deleted (the dialog confirmed), the active partition loses exactly
  that id, and \<open>activeConversationId\<close> becomes none when nothing remains, and otherwise
  the id of another conversation that remains in the active partition.
\<close>

theorem deleteConversation_active:
  assumes "activeConversationId (state w) = Some cid"
      and "hasOwn cid (conversations (state w))"
  shows "conversations (state (deleteConversation True cid False w))
           = deleteProp cid (conversations (state w))
       \<and> (if deleteProp cid (conversations (state w)) = []
          then activeConversationId (state (deleteConversation True cid False w)) = None
          else \<exists>k. activeConversationId (state (deleteConversation True cid False w)) = Some k
                 \<and> k \<noteq> cid
                 \<and> hasOwn k (conversations (state (deleteConversation True cid False w))))"
proof -
  let ?r = "deleteProp cid (conversations (state w))"
  have st: "state (deleteConversation True cid False w)
            = (state w)\<lparr>conversations := ?r, activeConversationId := firstKey ?r\<rparr>"
    using assms(1) by (simp add: deleteConversation_def Let_def)
  show ?thesis
  proof (cases "?r = []")
    case True
    then show ?thesis by (simp add: st firstKey_None)
  next
    case False
    then obtain k where k: "firstKey ?r = Some k"
      using firstKey_None [of ?r] by auto
    from firstKey_Some [OF k] have "hasOwn k ?r" .
    then show ?thesis using False k by (simp add: st hasOwn_deleteProp)
  qed
qed

theorem deleteConversation_active_witness:
  "activeConversationId (state sampleWorld) = Some ''c1''
   \<and> hasOwn ''c1'' (conversations (state sampleWorld))
   \<and> conversations (state (deleteConversation True ''c1'' False sampleWorld))
        = [(''c2'', Value (sampleConversation ''c2'' []))]
   \<and> activeConversationId (state (deleteConversation True ''c1'' False sampleWorld)) = Some ''c2''"
proof -
  have a: "activeConversationId (state sampleWorld) = Some ''c1''"
    by (simp add: sampleWorld_def sampleState_def)
  have b: "hasOwn ''c1'' (conversations (state sampleWorld))"
    by (simp add: sampleWorld_def sampleState_def hasOwn_def)
  have r: "deleteProp ''c1'' (conversations (state sampleWorld))
             = [(''c2'', Value (sampleConversation ''c2'' []))]"
    by (simp add: sampleWorld_def sampleState_def deleteProp_def AList.delete_eq)
  show ?thesis
    using a b deleteConversation_active [OF a b]
    by (auto simp: r hasOwn_def split: if_splits)
qed

text \<open>
  What unarchiving does to \<open>activeConversationId\<close>, for any id that passes the test
  \<^verbatim>\<open>id in\<close> other than \<^verbatim>\<open>__proto__\<close>: the test \<^verbatim>\<open>!state.activeConversationId\<close> decides, and like
  the other tests of the active id in the program it takes the empty string for no
  active conversation.
\<close>

lemma unarchive_active_general:
  assumes "hasProp cid (archivedConversations (state w))" and "cid \<noteq> ''__proto__''"
  shows "\<exists>w'. toggleArchiveConversation cid w = Some w'
           \<and> activeConversationId (state w')
               = (if falsy (activeConversationId (state w)) then Some cid
                  else activeConversationId (state w))"
  using assms
  by (simp add: toggleArchiveConversation_def Let_def replacesPrototype_def)

text \<open>
  Claim C10. Let an id of the archived partition be unarchived (an id other than
  \<^verbatim>\<open>__proto__\<close>, which the program never makes). The call returns. When
  \<open>activeConversationId\<close> was none, it is that id afterwards; when it was an id, which
  is never empty since the program makes no empty id, it is unchanged: so it is whenever
  it named an active conversation and another id is unarchived.
\<close>

theorem unarchive_active_id:
  assumes "cid \<noteq> ''__proto__''"
      and "inArchived cid w"
  shows "\<exists>w'. toggleArchiveConversation cid w = Some w'
           \<and> (activeConversationId (state w) = None
                \<longrightarrow> activeConversationId (state w') = Some cid)
           \<and> (\<forall>a. activeConversationId (state w) = Some a \<and> a \<noteq> []
                \<longrightarrow> activeConversationId (state w') = Some a)"
proof -
  have "hasProp cid (archivedConversations (state w))"
    using assms(2) by (simp add: hasProp_def inArchived_def)
  from unarchive_active_general [OF this assms(1)]
  show ?thesis by (auto simp: falsy_def)
qed

theorem unarchive_active_id_witness:
  "''c3'' \<noteq> ''__proto__''
   \<and> inArchived ''c3'' sampleWorld
   \<and> inArchived ''c3'' idleWorld
   \<and> inActive ''c1'' sampleWorld
   \<and> map_option (activeConversationId \<circ> state) (toggleArchiveConversation ''c3'' sampleWorld)
        = Some (Some ''c1'')
   \<and> map_option (activeConversationId \<circ> state) (toggleArchiveConversation ''c3'' idleWorld)
        = Some (Some ''c3'')"
proof -
  have n: "''c3'' \<noteq> ''__proto__''"
    by simp
  have a: "inArchived ''c3'' sampleWorld" "inArchived ''c3'' idleWorld"
    by (simp_all add: inArchived_def idleWorld_def sampleWorld_def sampleState_def hasOwn_def)
  have b: "activeConversationId (state sampleWorld) = Some ''c1''"
    "activeConversationId (state idleWorld) = None"
    by (simp_all add: idleWorld_def sampleWorld_def sampleState_def)
  show ?thesis
    using n a unarchive_active_id [OF n a(1)] unarchive_active_id [OF n a(2)]
    by (auto simp: b sample_partitions)
qed

section \<open>Sending a message\<close>

lemma streamLoop_eq:
  "streamLoop chunks modelResponse groundingChunks
     = (modelResponse @ streamedText chunks,
        if deliveredGrounding chunks = [] then groundingChunks
        else last (deliveredGrounding chunks))"
  by (induction chunks arbitrary: modelResponse groundingChunks)
     (auto simp: streamedText_def split: option.splits)

lemma streamLoop_start:
  "streamLoop chunks [] [] = (streamedText chunks, lastDeliveredGrounding chunks)"
  by (simp add: streamLoop_eq lastDeliveredGrounding_def)

lemma pushHistory_active:
  assumes "activeConversationId (state w) = Some i"
      and "getProp (conversations (state w)) i = Value c"
  shows "activeHistory (pushHistory i e w) = Some (c_history c @ [e])"
    and "activeConversationId (state (pushHistory i e w)) = Some i"
    and "ai (pushHistory i e w) = ai w"
  using assms by (simp_all add: pushHistory_def activeHistory_def getProp_setProp_Value)

lemma pushHistory_getProp:
  assumes "getProp (conversations (state w)) i = Value c"
  shows "getProp (conversations (state (pushHistory i e w))) i
           = Value (c\<lparr>c_history := c_history c @ [e]\<rparr>)"
  using assms by (simp add: pushHistory_def getProp_setProp_Value)

lemma activeHistory_saveState [simp]: "activeHistory (saveState w) = activeHistory w"
  by (simp add: activeHistory_def split: option.splits)

lemma activeHistory_title [simp]:
  "activeHistory (generateConversationTitle cid r w) = activeHistory w"
  by (auto simp: generateConversationTitle_def activeHistory_def getProp_setProp_Value Let_def
      split: option.splits ModelReply.splits jsval.splits)

text \<open>
  The start of a send: the conversation it writes to exists afterwards, is the active
  one, and has the history the send started from.
\<close>

lemma send_prefix:
  assumes "sendHistoryBefore w = Some h"
  shows "\<exists>w1 c. (case activeConversationId (state w) of
                   None \<Rightarrow> startNewChat False now1 now2 w
                 | Some i \<Rightarrow> if i = [] then startNewChat False now1 now2 w else (i, w))
                = (sendTarget now1 w, w1)
              \<and> activeConversationId (state w1) = Some (sendTarget now1 w)
              \<and> getProp (conversations (state w1)) (sendTarget now1 w) = Value c
              \<and> c_history c = h \<and> ai w1 = ai w"
proof (cases "falsy (activeConversationId (state w))")
  case True
  with assms have "h = []" by (simp add: sendHistoryBefore_def)
  with True show ?thesis
    by (auto simp: falsy_def sendTarget_def startNewChat_def Let_def getProp_update saveState_def)
next
  case False
  then obtain i where i: "activeConversationId (state w) = Some i" "i \<noteq> []"
    by (auto simp: falsy_def)
  with assms False obtain c where "getProp (conversations (state w)) i = Value c" "c_history c = h"
    by (auto simp: sendHistoryBefore_def activeHistory_def split: jsval.splits)
  with i show ?thesis by (simp add: sendTarget_def)
qed

lemma sample_send:
  "trim ''hi'' = ''hi''" "ai sampleWorld" "sendHistoryBefore sampleWorld = Some []"
  by (simp_all add: trim_def isWhiteSpace_def sampleWorld_def sampleState_def
      sendHistoryBefore_def activeHistory_def falsy_def getProp_def sampleConversation_def)

text \<open>
  Claim C1 fails as stated: when the stream breaks after the text \<^verbatim>\<open>Hello, wo\<close>, the history
  holds the user's entry and nothing else, so no error marker has been appended to it.
\<close>

theorem stream_failure_no_marker_counterexample:
  "historyAfter (handleFormSubmit ''hi'' 7 8
      (Streamed [\<lparr>chunkText = Some ''Hello, wo'', chunkGrounding = None\<rparr>] Broken) Rejected sampleWorld)
     = Some [\<lparr>h_role = User, h_text = ''hi'', h_groundingChunks = None\<rparr>]
   \<and> errorMarkers [\<lparr>h_role = User, h_text = ''hi'', h_groundingChunks = None\<rparr>] = []"
  by (simp add: handleFormSubmit_def Let_def sample_send sampleWorld_def sampleState_def
      sampleConversation_def pushHistory_def getProp_def setProp_def hasOwn_def historyAfter_def
      activeHistory_def errorMarkers_def)

text \<open>
  Claim C1, as amended. A send whose stream breaks after any chunks returns; the history
  of the conversation is then the history the send started from followed by the user's
  entry alone: neither the partial text nor an error marker is appended to it. The
  error marker is the last of the three messages handed to the view.
\<close>

theorem stream_failure_history:
  assumes "trim inp \<noteq> []" and "ai w" and "sendHistoryBefore w = Some h"
  shows "\<exists>w'. handleFormSubmit inp now1 now2 (Streamed chunks Broken) titleReply w
               = Inr (w', [(User, trim inp), (Model, []), (Model, errorMessageText)])
            \<and> activeHistory w'
               = Some (h @ [\<lparr>h_role = User, h_text = trim inp, h_groundingChunks = None\<rparr>])"
proof -
  from send_prefix [OF assms(3), of now1 now2]
  obtain w1 c where p:
    "(case activeConversationId (state w) of
        None \<Rightarrow> startNewChat False now1 now2 w
      | Some i \<Rightarrow> if i = [] then startNewChat False now1 now2 w else (i, w))
     = (sendTarget now1 w, w1)"
    "activeConversationId (state w1) = Some (sendTarget now1 w)"
    "getProp (conversations (state w1)) (sendTarget now1 w) = Value c"
    "c_history c = h"
    by blast
  show ?thesis
    using assms(1,2) p(4) pushHistory_active(1) [OF p(2) p(3)]
    by (simp add: handleFormSubmit_def Let_def p(1) p(3))
qed

theorem stream_failure_history_witness:
  "trim ''hi'' \<noteq> [] \<and> ai sampleWorld \<and> sendHistoryBefore sampleWorld = Some []
   \<and> historyAfter (handleFormSubmit ''hi'' 7 8
        (Streamed [\<lparr>chunkText = Some ''Hello, wo'', chunkGrounding = None\<rparr>] Broken) Rejected sampleWorld)
      = Some [\<lparr>h_role = User, h_text = ''hi'', h_groundingChunks = None\<rparr>]"
proof -
  have a: "trim ''hi'' \<noteq> []" by (simp add: sample_send)
  show ?thesis
    using a stream_failure_history [OF a sample_send(2) sample_send(3), of 7 8
        "[\<lparr>chunkText = Some ''Hello, wo'', chunkGrounding = None\<rparr>]" Rejected]
    by (auto simp: sample_send historyAfter_def)
qed

text \<open>
  Claim C5 fails as stated: an arrival with an empty list of sources wins over an earlier
  arrival that was not empty.
\<close>

theorem grounding_empty_arrival_counterexample:
  "historyAfter (handleFormSubmit ''hi'' 7 8 (Streamed sampleChunks Completed) Rejected sampleWorld)
     = Some [\<lparr>h_role = User, h_text = ''hi'', h_groundingChunks = None\<rparr>,
             \<lparr>h_role = Model, h_text = ''Hello!'', h_groundingChunks = Some []\<rparr>]
   \<and> lastNonEmptyGrounding sampleChunks = [sampleSource]"
  by (simp add: handleFormSubmit_def Let_def sample_send sampleWorld_def sampleState_def
      sampleConversation_def pushHistory_def getProp_def setProp_def hasOwn_def historyAfter_def
      activeHistory_def sampleChunks_def toText_def lastNonEmptyGrounding_def
      generateConversationTitle_def)

text \<open>
  Claim C5, as amended. A send whose stream ends returns, and the entry committed for the
  reply carries the streamed text and the list of sources of the last chunk that carried
  a list, empty or not (the empty list when no chunk carried one): each arrival
  overwrites the list, and only chunks without a list leave it as it is.
\<close>

theorem grounding_last_delivered:
  assumes "trim inp \<noteq> []" and "ai w" and "sendHistoryBefore w = Some h"
  shows "\<exists>w' shown. handleFormSubmit inp now1 now2 (Streamed chunks Completed) titleReply w
               = Inr (w', shown)
            \<and> activeHistory w'
               = Some (h @ [\<lparr>h_role = User, h_text = trim inp, h_groundingChunks = None\<rparr>,
                            \<lparr>h_role = Model, h_text = streamedText chunks,
                             h_groundingChunks = Some (lastDeliveredGrounding chunks)\<rparr>])"
proof -
  let ?u = "\<lparr>h_role = User, h_text = trim inp, h_groundingChunks = None\<rparr>"
  let ?t = "sendTarget now1 w"
  from send_prefix [OF assms(3), of now1 now2]
  obtain w1 c where p:
    "(case activeConversationId (state w) of
        None \<Rightarrow> startNewChat False now1 now2 w
      | Some i \<Rightarrow> if i = [] then startNewChat False now1 now2 w else (i, w))
     = (?t, w1)"
    "activeConversationId (state w1) = Some ?t"
    "getProp (conversations (state w1)) ?t = Value c"
    "c_history c = h"
    by blast
  let ?w2 = "saveState (pushHistory ?t ?u w1)"
  have a2: "activeConversationId (state ?w2) = Some ?t"
    using pushHistory_active(2) [OF p(2) p(3)] by simp
  have g2: "getProp (conversations (state ?w2)) ?t = Value (c\<lparr>c_history := c_history c @ [?u]\<rparr>)"
    using pushHistory_getProp [OF p(3)] by simp
  have "activeHistory (pushHistory ?t e ?w2) = Some (h @ [?u, e])" for e
    using pushHistory_active(1) [OF a2 g2, of e] p(4) by simp
  then show ?thesis
    using assms(1,2)
    by (simp add: handleFormSubmit_def Let_def p(1) p(3) streamLoop_start)
qed

theorem grounding_last_delivered_witness:
  "trim ''hi'' \<noteq> [] \<and> ai sampleWorld \<and> sendHistoryBefore sampleWorld = Some []
   \<and> historyAfter (handleFormSubmit ''hi'' 7 8 (Streamed sampleChunks Completed) Rejected sampleWorld)
      = Some [\<lparr>h_role = User, h_text = ''hi'', h_groundingChunks = None\<rparr>,
              \<lparr>h_role = Model, h_text = ''Hello!'', h_groundingChunks = Some []\<rparr>]"
proof -
  have a: "trim ''hi'' \<noteq> []" by (simp add: sample_send)
  have b: "streamedText sampleChunks = ''Hello!''" "lastDeliveredGrounding sampleChunks = []"
    by (simp_all add: streamedText_def sampleChunks_def toText_def lastDeliveredGrounding_def)
  show ?thesis
    using a grounding_last_delivered [OF a sample_send(2) sample_send(3), of 7 8 sampleChunks Rejected]
    by (auto simp: sample_send historyAfter_def b)
qed

text \<open>
  The scenario of the specification: with no active conversation, sending \<^verbatim>\<open>hi\<close> and
  receiving the chunks \<^verbatim>\<open>He\<close> and \<^verbatim>\<open>llo!\<close> gives a history of two entries.
\<close>

lemma scenario_first_exchange:
  "historyAfter (handleFormSubmit ''hi'' 7 8
      (Streamed [\<lparr>chunkText = Some ''He'', chunkGrounding = None\<rparr>,
                 \<lparr>chunkText = Some ''llo!'', chunkGrounding = None\<rparr>] Completed)
      Rejected
      (sampleWorld\<lparr>state := sampleState\<lparr>activeConversationId := None\<rparr>\<rparr>))
     = Some [\<lparr>h_role = User, h_text = ''hi'', h_groundingChunks = None\<rparr>,
             \<lparr>h_role = Model, h_text = ''Hello!'', h_groundingChunks = Some []\<rparr>]"
  by (simp add: handleFormSubmit_def Let_def trim_def isWhiteSpace_def sampleWorld_def
      sampleState_def startNewChat_def saveState_def pushHistory_def getProp_def setProp_def hasOwn_def
      historyAfter_def activeHistory_def toText_def generateConversationTitle_def
      update_conv')

section \<open>The title workflow\<close>

lemma sample_title_set:
  "titleOf ''c1''
     (generateConversationTitle ''c1'' (Replied (Some (CHR 0x22 # ''Greeting'' @ [CHR 0x22, CHR 0x20])))
        chattedWorld)
     = Some ''Greeting''"
  by (simp add: generateConversationTitle_def chattedWorld_def sampleWorld_def sampleState_def
      sampleConversation_def sampleExchange_def getProp_def setProp_def hasOwn_def titleOf_def
      Let_def removeQuotes_def
      trim_def isWhiteSpace_def)

text \<open>
  Claim C8. When the call for a title fails, \<open>generateConversationTitle\<close> changes nothing:
  the title keeps its value, no entry is appended to any history, nothing is written
  and nothing is shown.
\<close>

theorem title_failure_silent:
  assumes "titleCallFails titleReply w"
  shows "generateConversationTitle convoId titleReply w = w"
  using assms
  by (auto simp: generateConversationTitle_def titleCallFails_def split: jsval.splits)

theorem title_failure_silent_witness:
  "titleCallFails Rejected chattedWorld
   \<and> generateConversationTitle ''c1'' Rejected chattedWorld = chattedWorld
   \<and> titleOf ''c1'' chattedWorld = Some ''New Chat''"
proof -
  have a: "titleCallFails Rejected chattedWorld" by (simp add: titleCallFails_def)
  show ?thesis
    using a title_failure_silent [OF a, of "''c1''"]
    by (simp add: chattedWorld_def sampleWorld_def sampleState_def sampleConversation_def
        getProp_def titleOf_def)
qed

section \<open>Tasks and their check lists\<close>

lemma splitNl_nonempty: "splitNl s \<noteq> []"
  by (induction s) (auto split: list.splits)

lemma joinNl_Cons_char: "joinNl ((c # l) # ls) = c # joinNl (l # ls)"
  by (cases ls) simp_all

lemma joinNl_Nil_Cons: "ls \<noteq> [] \<Longrightarrow> joinNl ([] # ls) = CHR 0x0A # joinNl ls"
  by (cases ls) simp_all

lemma joinNl_splitNl: "joinNl (splitNl s) = s"
proof (induction s)
  case Nil
  show ?case by simp
next
  case (Cons c cs)
  show ?case
  proof (cases "c = CHR 0x0A")
    case True
    then show ?thesis using Cons by (simp add: joinNl_Nil_Cons splitNl_nonempty)
  next
    case False
    obtain l ls where sp: "splitNl cs = l # ls"
      using splitNl_nonempty [of cs] by (cases "splitNl cs") auto
    with False Cons show ?thesis by (simp add: joinNl_Cons_char)
  qed
qed

lemma toggleLoop_beyond:
  "currentSubtask + 1 + int (length (filter (\<lambda>line. startsWith ''- ['' (trim line)) lines)) \<le> subtaskIndex
   \<Longrightarrow> toggleLoop lines currentSubtask subtaskIndex checked = lines"
proof (induction lines arbitrary: currentSubtask)
  case Nil
  show ?case by simp
next
  case (Cons line rest)
  show ?case
  proof (cases "startsWith ''- ['' (trim line)")
    case True
    with Cons.prems have "currentSubtask + 1 \<noteq> subtaskIndex" by simp
    moreover from True Cons.prems
    have "toggleLoop rest (currentSubtask + 1) subtaskIndex checked = rest"
      by (intro Cons.IH) simp
    ultimately show ?thesis using True by simp
  next
    case False
    with Cons show ?thesis by simp
  qed
qed

lemma updateFirst_same:
  "find p xs = Some x \<Longrightarrow> f x = x \<Longrightarrow> updateFirst p f xs = xs"
  by (induction xs) (auto split: if_splits)

text \<open>
  Claim C3 fails on the code. The decoder counts the lines that match its pattern, the
  listener counts the lines that start with \<^verbatim>\<open>- [\<close>. In the notes of the sample task the first
  line, \<^verbatim>\<open>- [ ]\<close>, is counted by the listener only: the single check box that is rendered has
  index 0 and stands for the second line, and ticking it rewrites the first line.
\<close>

theorem toggle_flips_unrecognized_line:
  "sv_html (parseAndRenderSubtasks (sampleTask ''t1'' (''- [ ]'' @ [CHR 0x0A] @ ''- [ ] b'')))
     = [(0, False, ''b'')]
   \<and> map t_notes (tasks (state (subtaskCheckboxChange ''t1'' 0 True sampleWorld)))
     = [''- [x]'' @ [CHR 0x0A] @ ''- [ ] b'']"
  by (simp add: parseAndRenderSubtasks_def matchSubtask_def sampleTask_def sampleWorld_def
      sampleState_def subtaskCheckboxChange_def Let_def startsWith_def trim_def isWhiteSpace_def)

text \<open>
  Where the two loops agree on the lines of the notes, the listener does flip the marker
  of the line that the decoder numbered, and nothing else: the line with index \<open>i\<close> among
  the recognised lines has its marker exchanged, after the same leading white space and
  before the same text, and the lines before and after it are kept.
\<close>

lemma startsWith_iff: "startsWith p s = (\<exists>r. s = p @ r)"
proof
  assume "startsWith p s"
  then have "s = p @ drop (length p) s"
    by (metis append_take_drop_id startsWith_def)
  then show "\<exists>r. s = p @ r" ..
next
  assume "\<exists>r. s = p @ r"
  then show "startsWith p s" by (auto simp: startsWith_def)
qed

lemma checklistLine_cases:
  "checklistLine line = (\<exists>r. trim line = ''- [ ] '' @ r \<or> trim line = ''- [x] '' @ r)"
  by (auto simp: checklistLine_def matchSubtask_def startsWith_iff)

lemma checklistLine_bracketLine: "checklistLine line \<Longrightarrow> bracketLine line"
  by (auto simp: checklistLine_cases bracketLine_def startsWith_iff)

lemma trim_prefix:
  "\<exists>t. dropWhile isWhiteSpace s = trim s @ t"
proof -
  let ?d = "dropWhile isWhiteSpace s"
  have "rev ?d = takeWhile isWhiteSpace (rev ?d) @ dropWhile isWhiteSpace (rev ?d)"
    by simp
  then have "rev (rev ?d)
               = rev (dropWhile isWhiteSpace (rev ?d)) @ rev (takeWhile isWhiteSpace (rev ?d))"
    by (metis rev_append)
  then have "?d = trim s @ rev (takeWhile isWhiteSpace (rev ?d))"
    by (simp add: trim_def)
  then show ?thesis ..
qed

lemma line_decompose:
  assumes "trim line = p @ r"
  shows "\<exists>t. line = takeWhile isWhiteSpace line @ p @ t"
proof -
  obtain t where "dropWhile isWhiteSpace line = trim line @ t"
    using trim_prefix by blast
  then have "line = takeWhile isWhiteSpace line @ p @ (r @ t)"
    using assms by (metis append.assoc takeWhile_dropWhile_id)
  then show ?thesis ..
qed

lemma replaceFirst_skip:
  assumes "\<forall>c \<in> set ws. c \<noteq> b"
  shows "replaceFirst (b # pat) rep (ws @ u) = ws @ replaceFirst (b # pat) rep u"
  using assms by (induction ws) (auto simp: startsWith_def)

lemma bracket_not_space: "\<forall>c \<in> set (takeWhile isWhiteSpace line). c \<noteq> CHR ''[''"
  by (auto dest!: set_takeWhileD simp: isWhiteSpace_def)

lemma flip_unchecked:
  assumes "trim line = ''- [ ] '' @ r"
  shows "\<exists>t. line = takeWhile isWhiteSpace line @ ''- [ ] '' @ t
           \<and> replaceFirst ''[ ]'' ''[x]'' line = takeWhile isWhiteSpace line @ ''- [x] '' @ t"
proof -
  obtain t where t: "line = takeWhile isWhiteSpace line @ ''- [ ] '' @ t"
    using line_decompose [OF assms] by blast
  have "replaceFirst ''[ ]'' ''[x]'' (takeWhile isWhiteSpace line @ ''- [ ] '' @ t)
          = takeWhile isWhiteSpace line @ replaceFirst ''[ ]'' ''[x]'' (''- [ ] '' @ t)"
    using bracket_not_space by (rule replaceFirst_skip)
  also have "replaceFirst ''[ ]'' ''[x]'' (''- [ ] '' @ t) = ''- [x] '' @ t"
    by (simp add: startsWith_def)
  finally show ?thesis using t by metis
qed

lemma flip_checked:
  assumes "trim line = ''- [x] '' @ r"
  shows "\<exists>t. line = takeWhile isWhiteSpace line @ ''- [x] '' @ t
           \<and> replaceFirst ''[x]'' ''[ ]'' line = takeWhile isWhiteSpace line @ ''- [ ] '' @ t"
proof -
  obtain t where t: "line = takeWhile isWhiteSpace line @ ''- [x] '' @ t"
    using line_decompose [OF assms] by blast
  have "replaceFirst ''[x]'' ''[ ]'' (takeWhile isWhiteSpace line @ ''- [x] '' @ t)
          = takeWhile isWhiteSpace line @ replaceFirst ''[x]'' ''[ ]'' (''- [x] '' @ t)"
    using bracket_not_space by (rule replaceFirst_skip)
  also have "replaceFirst ''[x]'' ''[ ]'' (''- [x] '' @ t) = ''- [ ] '' @ t"
    by (simp add: startsWith_def)
  finally show ?thesis using t by metis
qed

lemma toggleLoop_at:
  assumes "length (filter bracketLine pre) = n" and "bracketLine line"
  shows "toggleLoop (pre @ line # post) cur (cur + 1 + int n) checked
           = pre @ (if checked then replaceFirst ''[ ]'' ''[x]'' line
                    else replaceFirst ''[x]'' ''[ ]'' line) # post"
  using assms
proof (induction pre arbitrary: cur n)
  case Nil
  then show ?case by (simp add: bracketLine_def)
next
  case (Cons l pre)
  show ?case
  proof (cases "bracketLine l")
    case True
    with Cons.prems obtain m where m: "n = Suc m" "length (filter bracketLine pre) = m"
      by auto
    have eq: "cur + 1 + int n = (cur + 1) + 1 + int m" using m(1) by simp
    have step: "toggleLoop (pre @ line # post) (cur + 1) (cur + 1 + int n) checked
            = pre @ (if checked then replaceFirst ''[ ]'' ''[x]'' line
                     else replaceFirst ''[x]'' ''[ ]'' line) # post"
      unfolding eq using m(2) Cons.prems(2) by (rule Cons.IH)
    have "toggleLoop (l # pre @ line # post) cur (cur + 1 + int n) checked
            = l # toggleLoop (pre @ line # post) (cur + 1) (cur + 1 + int n) checked"
      using True m(1) by (simp add: bracketLine_def)
    with step show ?thesis by simp
  next
    case False
    with Cons show ?thesis by (simp add: bracketLine_def)
  qed
qed

lemma nth_filtered_split:
  "i < length (filter P xs) \<Longrightarrow>
   \<exists>pre x post. xs = pre @ x # post \<and> P x \<and> length (filter P pre) = i"
proof (induction xs arbitrary: i)
  case Nil
  then show ?case by simp
next
  case (Cons a xs)
  show ?case
  proof (cases "P a")
    case True
    show ?thesis
    proof (cases i)
      case 0
      with True have "a # xs = [] @ a # xs \<and> P a \<and> length (filter P []) = i" by simp
      then show ?thesis by blast
    next
      case (Suc j)
      with Cons.prems True have "j < length (filter P xs)" by simp
      from Cons.IH [OF this] obtain pre x post
        where "xs = pre @ x # post" "P x" "length (filter P pre) = j" by blast
      with True Suc have "a # xs = (a # pre) @ x # post \<and> P x \<and> length (filter P (a # pre)) = i"
        by simp
      then show ?thesis by blast
    qed
  next
    case False
    with Cons.prems have "i < length (filter P xs)" by simp
    from Cons.IH [OF this] obtain pre x post
      where "xs = pre @ x # post" "P x" "length (filter P pre) = i" by blast
    with False have "a # xs = (a # pre) @ x # post \<and> P x \<and> length (filter P (a # pre)) = i"
      by simp
    then show ?thesis by blast
  qed
qed

lemma toggle_when_recognisers_agree:
  assumes agree: "\<forall>line \<in> set (splitNl notes). bracketLine line \<longrightarrow> checklistLine line"
      and i: "i < length (filter checklistLine (splitNl notes))"
  shows "\<exists>pre line post ws t.
           splitNl notes = pre @ line # post
         \<and> length (filter checklistLine pre) = i
         \<and> ((line = ws @ ''- [ ] '' @ t
               \<and> toggleLoop (splitNl notes) (- 1) (int i) True = pre @ (ws @ ''- [x] '' @ t) # post)
            \<or> (line = ws @ ''- [x] '' @ t
               \<and> toggleLoop (splitNl notes) (- 1) (int i) False = pre @ (ws @ ''- [ ] '' @ t) # post))"
proof -
  from nth_filtered_split [OF i] obtain pre line post
    where sp: "splitNl notes = pre @ line # post" "checklistLine line"
      "length (filter checklistLine pre) = i"
    by blast
  have "filter bracketLine pre = filter checklistLine pre"
    using agree sp(1) by (intro filter_cong) (auto dest: checklistLine_bracketLine)
  then have n: "length (filter bracketLine pre) = i" using sp(3) by simp
  have b: "bracketLine line" using sp(2) by (rule checklistLine_bracketLine)
  have tg: "toggleLoop (splitNl notes) (- 1) (int i) checked
              = pre @ (if checked then replaceFirst ''[ ]'' ''[x]'' line
                       else replaceFirst ''[x]'' ''[ ]'' line) # post" for checked
    using toggleLoop_at [OF n b, of post "- 1" checked] by (simp add: sp(1))
  from sp(2) obtain r where "trim line = ''- [ ] '' @ r \<or> trim line = ''- [x] '' @ r"
    by (auto simp: checklistLine_cases)
  then show ?thesis
  proof
    assume "trim line = ''- [ ] '' @ r"
    from flip_unchecked [OF this] obtain t
      where "line = takeWhile isWhiteSpace line @ ''- [ ] '' @ t"
        "replaceFirst ''[ ]'' ''[x]'' line = takeWhile isWhiteSpace line @ ''- [x] '' @ t"
      by blast
    with sp(1,3) tg [of True] show ?thesis by (simp only: if_True) blast
  next
    assume "trim line = ''- [x] '' @ r"
    from flip_checked [OF this] obtain t
      where "line = takeWhile isWhiteSpace line @ ''- [x] '' @ t"
        "replaceFirst ''[x]'' ''[ ]'' line = takeWhile isWhiteSpace line @ ''- [ ] '' @ t"
      by blast
    with sp(1,3) tg [of False] show ?thesis by (simp only: if_False) blast
  qed
qed

text \<open>The scenario of the specification: counts (1, 3), and index 2 ticks the last line.\<close>

lemma scenario_checklist:
  "(let task = sampleTask ''t1''
        (''- [ ] a'' @ [CHR 0x0A] @ ''- [x] b'' @ [CHR 0x0A] @ ''free text'' @ [CHR 0x0A] @ ''- [ ] c'')
    in (sv_completed (parseAndRenderSubtasks task), sv_total (parseAndRenderSubtasks task)) = (1, 3)
     \<and> joinNl (toggleLoop (splitNl (t_notes task)) (- 1) 2 True)
         = ''- [ ] a'' @ [CHR 0x0A] @ ''- [x] b'' @ [CHR 0x0A] @ ''free text'' @ [CHR 0x0A] @ ''- [x] c'')"
  by (simp add: parseAndRenderSubtasks_def matchSubtask_def sampleTask_def Let_def
      startsWith_def trim_def isWhiteSpace_def)

text \<open>
  Claim C9. For a task of the list and an index that is at least the number of lines of
  its notes whose trimmed form starts with \<^verbatim>\<open>- [\<close>, the listener leaves the notes as they
  are (the lines are split and joined again unchanged) and changes nothing else in the
  application state.
\<close>

theorem toggle_beyond_checklist:
  assumes "find (\<lambda>t. t_id t = taskId) (tasks (state w)) = Some task"
      and "int (bracketLineCount (t_notes task)) \<le> subtaskIndex"
  shows "state (subtaskCheckboxChange taskId subtaskIndex checked w) = state w
       \<and> joinNl (toggleLoop (splitNl (t_notes task)) (- 1) subtaskIndex checked) = t_notes task"
proof -
  have lines: "toggleLoop (splitNl (t_notes task)) (- 1) subtaskIndex checked = splitNl (t_notes task)"
    using assms(2) by (intro toggleLoop_beyond) (simp add: bracketLineCount_def)
  have rejoined: "joinNl (toggleLoop (splitNl (t_notes task)) (- 1) subtaskIndex checked) = t_notes task"
    by (simp add: lines joinNl_splitNl)
  have "updateFirst (\<lambda>t. t_id t = taskId) (\<lambda>t. t\<lparr>t_notes := t_notes task\<rparr>) (tasks (state w))
          = tasks (state w)"
    using assms(1) by (rule updateFirst_same) simp
  then show ?thesis
    using assms(1) by (simp add: subtaskCheckboxChange_def Let_def rejoined saveState_def)
qed

theorem toggle_beyond_checklist_witness:
  "find (\<lambda>t. t_id t = ''t1'') (tasks (state sampleWorld))
     = Some (sampleTask ''t1'' (''- [ ]'' @ [CHR 0x0A] @ ''- [ ] b''))
   \<and> int (bracketLineCount (t_notes (sampleTask ''t1'' (''- [ ]'' @ [CHR 0x0A] @ ''- [ ] b'')))) \<le> 2
   \<and> state (subtaskCheckboxChange ''t1'' 2 True sampleWorld) = state sampleWorld"
proof -
  have a: "find (\<lambda>t. t_id t = ''t1'') (tasks (state sampleWorld))
             = Some (sampleTask ''t1'' (''- [ ]'' @ [CHR 0x0A] @ ''- [ ] b''))"
    by (simp add: sampleWorld_def sampleState_def sampleTask_def)
  have b: "int (bracketLineCount (t_notes (sampleTask ''t1'' (''- [ ]'' @ [CHR 0x0A] @ ''- [ ] b'')))) \<le> 2"
    by (simp add: bracketLineCount_def sampleTask_def startsWith_def trim_def isWhiteSpace_def)
  show ?thesis
    using a b toggle_beyond_checklist [OF a b, of True] by simp
qed

text \<open>
  Claim C4. A submission of the task form whose trimmed title is empty, for a new task or
  for the task being edited, is answered by the error toast alone: the application state
  and the task being edited are as before and nothing is written to storage.
\<close>

theorem empty_title_rejected:
  assumes "trim (taskTitleInput form) = []"
  shows "state (handleTaskFormSubmit form now1 now2 w) = state w
       \<and> saved (handleTaskFormSubmit form now1 now2 w) = saved w
       \<and> editingTaskId (handleTaskFormSubmit form now1 now2 w) = editingTaskId w
       \<and> notifications (handleTaskFormSubmit form now1 now2 w)
           = notifications w @ [(''Task title cannot be empty'', ''error'')]"
  using assms by (simp add: handleTaskFormSubmit_def Let_def showNotification_def)

theorem empty_title_rejected_witness:
  "trim (taskTitleInput sampleForm) = []
   \<and> state (handleTaskFormSubmit sampleForm 5 6 sampleWorld) = state sampleWorld
   \<and> saved (handleTaskFormSubmit sampleForm 5 6 sampleWorld) = []
   \<and> notifications (handleTaskFormSubmit sampleForm 5 6 sampleWorld)
        = [(''Task title cannot be empty'', ''error'')]"
proof -
  have a: "trim (taskTitleInput sampleForm) = []"
    by (simp add: sampleForm_def trim_def isWhiteSpace_def)
  show ?thesis
    using a empty_title_rejected [OF a, of 5 6 sampleWorld]
    by (simp add: sampleWorld_def)
qed

section \<open>Loading\<close>

lemma map_of_rev_distinct: "distinct (map fst xs) \<Longrightarrow> map_of (rev xs) = map_of xs"
proof (induction xs)
  case Nil
  show ?case by simp
next
  case (Cons x xs)
  obtain k v where x: "x = (k, v)" by (cases x)
  from Cons.prems x have "map_of xs k = None"
    by (simp add: map_of_eq_None_iff)
  with Cons x show ?case
    by (auto simp: map_add_def fun_eq_iff split: option.splits)
qed

lemma fold_update_map_of:
  "map_of (fold (\<lambda>(k, v). AList.update k v) xs acc) = map_of acc ++ map_of (rev xs)"
proof (induction xs arbitrary: acc)
  case Nil
  show ?case by simp
next
  case (Cons x xs)
  obtain k v where x: "x = (k, v)" by (cases x)
  have "map_of (fold (\<lambda>(k, v). AList.update k v) (x # xs) acc)
          = (map_of acc)(k \<mapsto> v) ++ map_of (rev xs)"
    by (auto simp: x Cons.IH update_conv' fun_eq_iff map_add_def split: option.splits)
  also have "\<dots> = map_of acc ++ map_of (rev (x # xs))"
    by (auto simp: x map_add_def fun_eq_iff split: option.splits)
  finally show ?case .
qed

lemma fold_update_distinct:
  "distinct (map fst acc) \<Longrightarrow> distinct (map fst (fold (\<lambda>(k, v). AList.update k v) xs acc))"
  by (induction xs arbitrary: acc) (auto simp: distinct_update)

lemma distinct_objectSpread: "distinct (map fst (objectSpread a b))"
  by (simp add: objectSpread_def fold_update_distinct)

lemma objGet_objectSpread:
  "objGet (objectSpread a b) k = (case objGet b k of Some v \<Rightarrow> Some v | None \<Rightarrow> objGet a k)"
proof -
  have "objGet (objectSpread a b) k = map_of (objectSpread a b) k"
    by (simp add: objGet_def map_of_rev_distinct distinct_objectSpread)
  also have "\<dots> = (map_of (rev a) ++ map_of (rev b)) k"
    by (simp add: objectSpread_def fold_update_map_of)
  finally show ?thesis by (simp add: objGet_def map_add_def split: option.splits)
qed

lemma objGet_update:
  "distinct (map fst xs) \<Longrightarrow>
   objGet (AList.update k v xs) k' = (if k' = k then Some v else objGet xs k')"
  by (simp add: objGet_def map_of_rev_distinct distinct_update update_conv')

lemma getField_not_null:
  "v \<noteq> JNull \<Longrightarrow> \<exists>x. getField v k = Inr x"
  by (cases v) (simp_all add: getField_def)

lemma getField_settings:
  "getField v ''settings'' = Inr x \<Longrightarrow> spreadProps x = persistedSettings (Parsed v)"
  by (cases v) (auto simp: getField_def persistedSettings_def spreadProps_def)

lemma loadState_null: "loadState (Parsed JNull) = Inl TypeError"
  by (simp add: loadState_def getField_def)

text \<open>
  Claim C7 fails as stated: the fields of the snapshot that the program does not know,
  here \<open>theme\<close> and, inside the settings, \<open>fontSize\<close>, are in the loaded state.
\<close>

theorem loadState_unknown_fields_counterexample:
  "loadState (Parsed sampleSnapshot)
     = Inr [(''conversations'', JObj []),
            (''archivedConversations'', JObj []),
            (''activeConversationId'', JNull),
            (''tasks'', JArr []),
            (''settings'', JObj [(''nickname'', JStr ''Jo''),
                                 (''customInstructions'', JStr []),
                                 (''agentName'', JStr ''Gemini''),
                                 (''agentAvatarUrl'', JStr []),
                                 (''searchArchived'', JBool False),
                                 (''isSidebarPinned'', JBool False),
                                 (''fontSize'', JNum 12)]),
            (''theme'', JStr ''dark'')]"
  by (simp add: loadState_def sampleSnapshot_def getField_def objGet_def spreadProps_def
      objectSpread_def getInitialState_def initialSettings_def DEFAULT_AGENT_NAME_def truthy_def)

text \<open>
  Claim C7, as amended. For a snapshot that is absent or parses to a value other than
  null, loading gives a state whose \<open>settings\<close> is an object in which every name has the
  value of the persisted settings when they have it and the default value otherwise, so
  every default field is there; the names the program does not know are kept, in the
  settings and, apart from \<open>settings\<close> and \<open>tasks\<close>, among the fields of the state.
\<close>

theorem loadState_merges_defaults:
  assumes "savedState = Absent \<or> (\<exists>v. savedState = Parsed v \<and> v \<noteq> JNull)"
  shows "\<exists>st ss. loadState savedState = Inr st
           \<and> objGet st ''settings'' = Some (JObj ss)
           \<and> (\<forall>k. objGet ss k = (case objGet (persistedSettings savedState) k of
                                     Some v \<Rightarrow> Some v
                                   | None \<Rightarrow> objGet initialSettings k))
           \<and> (\<forall>k. k \<noteq> ''settings'' \<and> k \<noteq> ''tasks'' \<longrightarrow>
                  objGet st k = (case objGet (persistedFields savedState) k of
                                   Some v \<Rightarrow> Some v
                                 | None \<Rightarrow> objGet getInitialState k))"
  using assms
proof
  assume a: "savedState = Absent"
  have "objGet getInitialState ''settings'' = Some (JObj initialSettings)"
    by (simp add: objGet_def getInitialState_def)
  with a show ?thesis
    by (simp add: loadState_def persistedSettings_def persistedFields_def objGet_def)
next
  assume "\<exists>v. savedState = Parsed v \<and> v \<noteq> JNull"
  then obtain v where v: "savedState = Parsed v" "v \<noteq> JNull" by blast
  obtain x where x: "getField v ''settings'' = Inr x"
    using getField_not_null [OF v(2)] by blast
  obtain y where y: "getField v ''tasks'' = Inr y"
    using getField_not_null [OF v(2)] by blast
  let ?s0 = "objectSpread getInitialState (spreadProps (Some v))"
  let ?ss = "objectSpread initialSettings (spreadProps x)"
  let ?s1 = "AList.update ''settings'' (JObj ?ss) ?s0"
  let ?t = "case y of Some t \<Rightarrow> if truthy y then t else JArr [] | None \<Rightarrow> JArr []"
  have ld: "loadState savedState = Inr (AList.update ''tasks'' ?t ?s1)"
    by (simp add: loadState_def v(1) x y Let_def)
  have d1: "distinct (map fst ?s1)"
    by (simp add: distinct_update distinct_objectSpread)
  have g: "objGet (AList.update ''tasks'' ?t ?s1) k
             = (if k = ''tasks'' then Some ?t
                else if k = ''settings'' then Some (JObj ?ss) else objGet ?s0 k)" for k
    by (simp add: objGet_update d1 distinct_objectSpread)
  have "objGet (AList.update ''tasks'' ?t ?s1) ''settings'' = Some (JObj ?ss)"
    by (simp add: g)
  moreover have "\<forall>k. objGet ?ss k = (case objGet (persistedSettings savedState) k of
                                     Some v \<Rightarrow> Some v
                                   | None \<Rightarrow> objGet initialSettings k)"
    by (simp add: objGet_objectSpread getField_settings [OF x] v(1))
  moreover have "\<forall>k. k \<noteq> ''settings'' \<and> k \<noteq> ''tasks'' \<longrightarrow>
                  objGet (AList.update ''tasks'' ?t ?s1) k
                    = (case objGet (persistedFields savedState) k of
                                   Some v \<Rightarrow> Some v
                                 | None \<Rightarrow> objGet getInitialState k)"
    by (simp add: g objGet_objectSpread persistedFields_def v(1))
  ultimately show ?thesis using ld by blast
qed

theorem loadState_merges_defaults_witness:
  "sampleSnapshot \<noteq> JNull
   \<and> (\<exists>st ss. loadState (Parsed sampleSnapshot) = Inr st
         \<and> objGet st ''settings'' = Some (JObj ss)
         \<and> objGet ss ''nickname'' = Some (JStr ''Jo'')
         \<and> objGet ss ''agentName'' = Some (JStr ''Gemini'')
         \<and> objGet ss ''fontSize'' = Some (JNum 12)
         \<and> objGet st ''theme'' = Some (JStr ''dark''))"
proof -
  have a: "Parsed sampleSnapshot = Absent \<or> (\<exists>v. Parsed sampleSnapshot = Parsed v \<and> v \<noteq> JNull)"
    by (simp add: sampleSnapshot_def)
  have ps: "persistedSettings (Parsed sampleSnapshot)
              = [(''nickname'', JStr ''Jo''), (''fontSize'', JNum 12)]"
    by (simp add: persistedSettings_def sampleSnapshot_def objGet_def spreadProps_def)
  have pf: "objGet (persistedFields (Parsed sampleSnapshot)) ''theme'' = Some (JStr ''dark'')"
    by (simp add: persistedFields_def sampleSnapshot_def objGet_def spreadProps_def)
  from loadState_merges_defaults [OF a]
  obtain st ss where r: "loadState (Parsed sampleSnapshot) = Inr st"
    "objGet st ''settings'' = Some (JObj ss)"
    "\<And>k. objGet ss k = (case objGet (persistedSettings (Parsed sampleSnapshot)) k of
                           Some v \<Rightarrow> Some v | None \<Rightarrow> objGet initialSettings k)"
    "\<And>k. k \<noteq> ''settings'' \<and> k \<noteq> ''tasks'' \<longrightarrow>
          objGet st k = (case objGet (persistedFields (Parsed sampleSnapshot)) k of
                           Some v \<Rightarrow> Some v | None \<Rightarrow> objGet getInitialState k)"
    by blast
  have "objGet ss ''nickname'' = Some (JStr ''Jo'')"
       "objGet ss ''agentName'' = Some (JStr ''Gemini'')"
       "objGet ss ''fontSize'' = Some (JNum 12)"
    using r(3) [of "''nickname''"] r(3) [of "''agentName''"] r(3) [of "''fontSize''"]
    by (simp_all add: ps objGet_def initialSettings_def DEFAULT_AGENT_NAME_def)
  moreover have "objGet st ''theme'' = Some (JStr ''dark'')"
    using r(4) [of "''theme''"] by (simp add: pf)
  ultimately show ?thesis
    using r(1,2) by (auto simp: sampleSnapshot_def)
qed

end
